theory Spec2Isabelle
  imports Complex_Main "HOL-Library.Log_Nat"
begin

section \<open>Schedule conflict detection (components/schedule/ScheduleView.tsx)\<close>

text \<open>
  A \<open>WorkShift\<close> row as the component reads it: its id, the day of the week and the two
  timestamps. \<open>new Date(shift.startTime)\<close> is compared through its time value, the
  number of milliseconds since the epoch, so a timestamp is an integer.
\<close>

record WorkShift =
  shiftId :: string
  dayOfWeek :: int
  startTime :: int
  endTime :: int

text \<open>The object \<open>{ ...shift, departmentName }\<close> pushed into the conflict list.\<close>

record WorkShiftWithDepartmentName = WorkShift +
  departmentName :: string

record DepartmentRef =
  departmentRefId :: string
  departmentRefName :: string

text \<open>\<open>ScheduleWithDepartment\<close>: a department's week of shifts with \<open>department: {id, name}\<close>.\<close>

record ScheduleWithDepartment =
  scheduleId :: string
  weekStart :: int
  schedules :: "WorkShift list"
  department :: DepartmentRef

record Conflict =
  shift1 :: WorkShiftWithDepartmentName
  shift2 :: WorkShiftWithDepartmentName

record ConflictReport =
  hasConflict :: bool
  conflicts :: "Conflict list"

text \<open>The test named \<open>hasOverlap\<close> in the source, on the four time values.\<close>

definition hasOverlap :: "int \<Rightarrow> int \<Rightarrow> int \<Rightarrow> int \<Rightarrow> bool" where
  "hasOverlap start1 end1 start2 end2 =
     ((start1 \<le> end2 \<and> end1 > start2) \<or> (start2 \<le> end1 \<and> end2 > start1))"

definition withDepartmentName :: "WorkShift \<Rightarrow> string \<Rightarrow> WorkShiftWithDepartmentName" where
  "withDepartmentName shift name =
     \<lparr>shiftId = shiftId shift, dayOfWeek = dayOfWeek shift, startTime = startTime shift,
      endTime = endTime shift, departmentName = name\<rparr>"

text \<open>
  The body of the innermost \<open>forEach\<close>: the pair is pushed at the end of \<open>conflicts\<close>
  when both shifts are on the same day and \<open>hasOverlap\<close> holds.
\<close>

definition compareShifts ::
  "ScheduleWithDepartment \<Rightarrow> ScheduleWithDepartment \<Rightarrow> WorkShift \<Rightarrow> WorkShift \<Rightarrow>
   Conflict list \<Rightarrow> Conflict list" where
  "compareShifts schedule1 schedule2 s1 s2 acc =
     (if dayOfWeek s1 = dayOfWeek s2 then
        (let start1 = startTime s1; end1 = endTime s1;
             start2 = startTime s2; end2 = endTime s2
         in if hasOverlap start1 end1 start2 end2
            then acc @ [\<lparr>shift1 = withDepartmentName s1 (departmentRefName (department schedule1)),
                         shift2 = withDepartmentName s2 (departmentRefName (department schedule2))\<rparr>]
            else acc)
      else acc)"

text \<open>
  The body of the second \<open>forEach\<close>: a pair of schedules of one department is skipped
  (the early \<open>return\<close>), otherwise every shift of the first is compared with every shift
  of the second.
\<close>

definition compareSchedules ::
  "ScheduleWithDepartment \<Rightarrow> ScheduleWithDepartment \<Rightarrow> Conflict list \<Rightarrow> Conflict list" where
  "compareSchedules schedule1 schedule2 acc =
     (if departmentRefId (department schedule1) = departmentRefId (department schedule2) then acc
      else fold (\<lambda>s1 acc1. fold (\<lambda>s2 acc2. compareShifts schedule1 schedule2 s1 s2 acc2)
                   (schedules schedule2) acc1)
             (schedules schedule1) acc)"

text \<open>
  \<open>schedules.forEach((schedule1, index) => schedules.slice(index + 1).forEach(...))\<close>:
  the outer loop runs over the indices, the inner one over the schedules after \<open>index\<close>.
\<close>

definition checkScheduleConflicts :: "ScheduleWithDepartment list \<Rightarrow> ConflictReport" where
  "checkScheduleConflicts scheds =
     (let found =
        fold (\<lambda>index acc.
                fold (\<lambda>schedule2 acc'. compareSchedules (scheds ! index) schedule2 acc')
                  (drop (index + 1) scheds) acc)
          [0..<length scheds] []
      in \<lparr>hasConflict = length found > 0, conflicts = found\<rparr>)"


section \<open>JavaScript numbers and decimal.js values\<close>

text \<open>
  A \<open>Decimal\<close> of decimal.js is a decimal fraction, modelled by the rational it denotes.
  A JavaScript \<open>number\<close> is an IEEE 754 binary64 value, modelled by the rational it
  denotes. The model covers the normal range of binary64 (no overflow to infinity, no
  subnormal results) and the exponent range of decimal.js.
\<close>

type_synonym decimal = rat
type_synonym number = rat

text \<open>
  The arithmetic of decimal.js rounds every result to \<open>Decimal.precision\<close> significant
  digits in the mode \<open>Decimal.rounding\<close>. The service imports the library as it is, with
  the defaults: 20 digits, and \<open>ROUND_HALF_UP\<close> (to the nearest, a midpoint away from zero).
  \<open>decimalDigits n\<close> is the number of decimal digits of a positive integer, and
  \<open>floorLog10 x\<close> the integer \<open>e\<close> with \<open>10^e \<le> x < 10^(e+1)\<close>, for \<open>x > 0\<close>: the
  exponent of the first significant digit.
\<close>

definition precision :: int where
  "precision = 20"

function decimalDigits :: "int \<Rightarrow> int" where
  "decimalDigits n = (if 0 < n then decimalDigits (n div 10) + 1 else 0)"
  by pat_completeness auto
termination
  by (relation "measure nat") auto

declare decimalDigits.simps [simp del]

definition floorLog10 :: "rat \<Rightarrow> int" where
  "floorLog10 x =
     (if 1 \<le> x then decimalDigits \<lfloor>x\<rfloor> - 1 else - decimalDigits (\<lceil>1 / x\<rceil> - 1))"

definition finalise :: "rat \<Rightarrow> decimal" where
  "finalise x =
     (if x = 0 then 0
      else (let e = floorLog10 \<bar>x\<bar>; u = 10 powi (e - (precision - 1))
            in sgn x * of_int \<lfloor>\<bar>x\<bar> / u + 1 / 2\<rfloor> * u))"

text \<open>\<open>x.plus(y)\<close>: the exact sum, rounded.\<close>

definition Decimal_plus :: "decimal \<Rightarrow> decimal \<Rightarrow> decimal" where
  "Decimal_plus x y = finalise (x + y)"

text \<open>\<open>floorLog2 x\<close> is the integer \<open>e\<close> with \<open>2^e \<le> x < 2^(e+1)\<close>, for \<open>x > 0\<close>.\<close>

definition floorLog2 :: "rat \<Rightarrow> int" where
  "floorLog2 x = (if 1 \<le> x then bitlen \<lfloor>x\<rfloor> - 1 else - bitlen (\<lceil>1 / x\<rceil> - 1))"

definition roundHalfEven :: "rat \<Rightarrow> int" where
  "roundHalfEven x =
     (let n = \<lfloor>x\<rfloor>; f = x - of_int n
      in if f < 1 / 2 then n else if 1 / 2 < f then n + 1 else if even n then n else n + 1)"

text \<open>
  Rounding of an exact result to the nearest binary64 value, ties to even: the value is
  a 53-bit integer times the unit in the last place \<open>2^(e - 52)\<close>.
\<close>

definition roundToDouble :: "rat \<Rightarrow> number" where
  "roundToDouble x =
     (if x = 0 then 0
      else (let e = floorLog2 \<bar>x\<bar>; u = 2 powi (e - 52)
            in sgn x * of_int (roundHalfEven (\<bar>x\<bar> / u)) * u))"

text \<open>The operators \<open>-\<close> and \<open>/\<close> on numbers: the exact result, rounded.\<close>

definition jsSubtract :: "number \<Rightarrow> number \<Rightarrow> number" where
  "jsSubtract a b = roundToDouble (a - b)"

definition jsDivide :: "number \<Rightarrow> number \<Rightarrow> number" where
  "jsDivide a b = roundToDouble (a / b)"

text \<open>
  \<open>x.toFixed(2)\<close> followed by \<open>new Decimal(...)\<close>: the integer \<open>n\<close> for which \<open>n / 100\<close>
  is nearest to the exact value of \<open>x\<close>, the larger one of two, as a decimal with two
  places; a negative \<open>x\<close> is formatted as the negation of \<open>-x\<close>.
\<close>

definition toFixed2 :: "number \<Rightarrow> decimal" where
  "toFixed2 x =
     (if x < 0 then - (of_int \<lfloor>- x * 100 + 1 / 2\<rfloor> / 100) else of_int \<lfloor>x * 100 + 1 / 2\<rfloor> / 100)"

text \<open>\<open>Decimal.toNumber()\<close>: the binary64 value nearest to the decimal.\<close>

definition toNumber :: "decimal \<Rightarrow> number" where
  "toNumber d = roundToDouble d"

section \<open>The department service (services/DepartmentService.ts)\<close>

text \<open>
  Modelled from the spec: the Prisma schema is not among the sources, so the two role
  enumerations, the columns of the three tables and the constraints of the membership
  table (unique on user and department, both referencing existing rows, removed with
  their department) are taken from the specification and from the queries of the service.
\<close>

datatype UserRole = UserRole_ADMIN | UserRole_USER

datatype EmployeeDepartmentRole =
  EmployeeDepartmentRole_MEMBER | EmployeeDepartmentRole_MANAGER | EmployeeDepartmentRole_ADMIN

record User =
  user_id :: string
  user_role :: UserRole

record Department =
  department_id :: string
  department_name :: string
  department_info :: "string option"

record EmployeeDepartment =
  ed_userId :: string
  ed_departmentId :: string
  ed_role :: EmployeeDepartmentRole
  ed_hourlyRate :: decimal
  ed_position :: string

text \<open>\<open>DepartmentViewInterface extends Department\<close> with the two rollups.\<close>

record DepartmentViewInterface = Department +
  employeeCount :: nat
  totalCost :: number

text \<open>The datastore: one list of rows per table.\<close>

record Db =
  users :: "User list"
  departments :: "Department list"
  employeeDepartments :: "EmployeeDepartment list"

text \<open>
  Every failure of the service is a \<open>console.error\<close> followed by \<open>return null\<close>; the
  constructors name the message logged on each path.
\<close>

datatype ServiceError =
  PermissionDenied | UserNotFound | DepartmentNotFound | EmployeeNotFound | StorageError

subsection \<open>Queries of the Prisma client\<close>

definition user_findUnique :: "Db \<Rightarrow> string \<Rightarrow> User option" where
  "user_findUnique db uid = find (\<lambda>u. user_id u = uid) (users db)"

definition department_findUnique :: "Db \<Rightarrow> string \<Rightarrow> Department option" where
  "department_findUnique db did = find (\<lambda>d. department_id d = did) (departments db)"

definition isMembership :: "string \<Rightarrow> string \<Rightarrow> EmployeeDepartment \<Rightarrow> bool" where
  "isMembership uid did m = (ed_userId m = uid \<and> ed_departmentId m = did)"

definition employeeDepartment_findFirst :: "Db \<Rightarrow> string \<Rightarrow> string \<Rightarrow> EmployeeDepartment option" where
  "employeeDepartment_findFirst db uid did = find (isMembership uid did) (employeeDepartments db)"

definition employeeDepartment_findMany :: "Db \<Rightarrow> string \<Rightarrow> EmployeeDepartment list" where
  "employeeDepartment_findMany db did = filter (\<lambda>m. ed_departmentId m = did) (employeeDepartments db)"

definition employeeDepartment_count :: "Db \<Rightarrow> string \<Rightarrow> nat" where
  "employeeDepartment_count db did = length (employeeDepartment_findMany db did)"

text \<open>
  The writes. A write that the datastore rejects throws, which is the value \<open>None\<close>:
  \<open>create\<close> of a row whose key exists or whose references are missing, \<open>update\<close> and
  \<open>delete\<close> of a row that does not exist. A department's id is generated by the
  datastore and passed in as \<open>newId\<close>. A membership is addressed by its unique key
  \<open>userId_departmentId\<close>, so at most one row matches and \<open>update\<close> and \<open>delete\<close> act on
  the first match; the hourly rate is stored as the decimal it is given.
\<close>

definition department_create :: "Db \<Rightarrow> string \<Rightarrow> string \<Rightarrow> string option \<Rightarrow> (Db \<times> Department) option" where
  "department_create db newId name info =
     (if department_findUnique db newId \<noteq> None then None
      else (let d = \<lparr>department_id = newId, department_name = name, department_info = info\<rparr>
            in Some (db\<lparr>departments := departments db @ [d]\<rparr>, d)))"

definition department_delete :: "Db \<Rightarrow> string \<Rightarrow> (Db \<times> Department) option" where
  "department_delete db did =
     (case department_findUnique db did of
        None \<Rightarrow> None
      | Some d \<Rightarrow>
          Some (db\<lparr>departments := filter (\<lambda>x. department_id x \<noteq> did) (departments db),
                   employeeDepartments :=
                     filter (\<lambda>m. ed_departmentId m \<noteq> did) (employeeDepartments db)\<rparr>, d))"

definition employeeDepartment_create :: "Db \<Rightarrow> EmployeeDepartment \<Rightarrow> Db option" where
  "employeeDepartment_create db m =
     (if employeeDepartment_findFirst db (ed_userId m) (ed_departmentId m) \<noteq> None
         \<or> user_findUnique db (ed_userId m) = None
         \<or> department_findUnique db (ed_departmentId m) = None
      then None
      else Some (db\<lparr>employeeDepartments := employeeDepartments db @ [m]\<rparr>))"

fun updateFirst :: "('a \<Rightarrow> bool) \<Rightarrow> ('a \<Rightarrow> 'a) \<Rightarrow> 'a list \<Rightarrow> 'a list" where
  "updateFirst P f [] = []"
| "updateFirst P f (x # xs) = (if P x then f x # xs else x # updateFirst P f xs)"

fun deleteFirst :: "('a \<Rightarrow> bool) \<Rightarrow> 'a list \<Rightarrow> 'a list" where
  "deleteFirst P [] = []"
| "deleteFirst P (x # xs) = (if P x then xs else x # deleteFirst P xs)"

definition employeeDepartment_update ::
  "Db \<Rightarrow> string \<Rightarrow> string \<Rightarrow> EmployeeDepartmentRole \<Rightarrow> decimal \<Rightarrow> string \<Rightarrow> Db option" where
  "employeeDepartment_update db uid did role rate position =
     (if employeeDepartment_findFirst db uid did = None then None
      else Some (db\<lparr>employeeDepartments :=
                  updateFirst (isMembership uid did)
                    (\<lambda>m. m\<lparr>ed_role := role, ed_hourlyRate := rate, ed_position := position\<rparr>)
                    (employeeDepartments db)\<rparr>))"

definition employeeDepartment_delete :: "Db \<Rightarrow> string \<Rightarrow> string \<Rightarrow> Db option" where
  "employeeDepartment_delete db uid did =
     (if employeeDepartment_findFirst db uid did = None then None
      else Some (db\<lparr>employeeDepartments :=
                  deleteFirst (isMembership uid did) (employeeDepartments db)\<rparr>))"

subsection \<open>The service\<close>

definition asView :: "Department \<Rightarrow> nat \<Rightarrow> number \<Rightarrow> DepartmentViewInterface" where
  "asView d n c =
     \<lparr>department_id = department_id d, department_name = department_name d,
      department_info = department_info d, employeeCount = n, totalCost = c\<rparr>"

definition getDepartmentById :: "Db \<Rightarrow> string \<Rightarrow> Department option" where
  "getDepartmentById db did = department_findUnique db did"

definition getTotalEmployeeCount :: "Db \<Rightarrow> string \<Rightarrow> nat" where
  "getTotalEmployeeCount db departmentId = employeeDepartment_count db departmentId"

text \<open>\<open>employees.reduce((acc, emp) => acc.plus(emp.hourlyRate), new Decimal(0)).toNumber()\<close>\<close>

definition getEmployeeCost :: "Db \<Rightarrow> string \<Rightarrow> number" where
  "getEmployeeCost db departmentId =
     (let employees = employeeDepartment_findMany db departmentId;
          total = fold (\<lambda>emp acc. Decimal_plus acc (ed_hourlyRate emp)) employees 0
      in toNumber total)"

definition createDepartment ::
  "Db \<Rightarrow> string \<Rightarrow> string \<Rightarrow> string \<Rightarrow> string option \<Rightarrow> Db \<times> (ServiceError + DepartmentViewInterface)" where
  "createDepartment db newId userId name info =
     (case user_findUnique db userId of
        None \<Rightarrow> (db, Inl PermissionDenied)
      | Some user \<Rightarrow>
          if user_role user \<noteq> UserRole_ADMIN then (db, Inl PermissionDenied)
          else (case department_create db newId name info of
                  None \<Rightarrow> (db, Inl StorageError)
                | Some (db', d) \<Rightarrow> (db', Inr (asView d 0 0))))"

definition deleteDepartment :: "Db \<Rightarrow> string \<Rightarrow> string \<Rightarrow> Db \<times> (ServiceError + Department)" where
  "deleteDepartment db userId did =
     (case user_findUnique db userId of
        None \<Rightarrow> (db, Inl PermissionDenied)
      | Some user \<Rightarrow>
          if user_role user \<noteq> UserRole_ADMIN then (db, Inl PermissionDenied)
          else (case department_delete db did of
                  None \<Rightarrow> (db, Inl StorageError)
                | Some (db', d) \<Rightarrow> (db', Inr d)))"

text \<open>
  \<open>userDeparmentRole?.role !== MANAGER\<close> holds when the actor has no membership in the
  department. The argument \<open>rate\<close> is the decimal \<open>new Decimal(rate)\<close>.
\<close>

definition addEmployeeToDepartment ::
  "Db \<Rightarrow> string \<Rightarrow> string \<Rightarrow> string \<Rightarrow> EmployeeDepartmentRole \<Rightarrow> decimal \<Rightarrow> string \<Rightarrow>
   Db \<times> (ServiceError + DepartmentViewInterface)" where
  "addEmployeeToDepartment db userId departmentId employeeId role rate position =
     (let user = user_findUnique db userId;
          userDeparmentRole = employeeDepartment_findFirst db userId departmentId
      in if user = None \<or>
            (map_option user_role user \<noteq> Some UserRole_ADMIN \<and>
             map_option ed_role userDeparmentRole \<noteq> Some EmployeeDepartmentRole_MANAGER)
         then (db, Inl PermissionDenied)
         else (case getDepartmentById db departmentId of
                 None \<Rightarrow> (db, Inl DepartmentNotFound)
               | Some dept \<Rightarrow>
                   (let employeeExists = employeeDepartment_findFirst db employeeId departmentId;
                        written =
                          (if employeeExists \<noteq> None
                           then employeeDepartment_update db employeeId departmentId role rate position
                           else employeeDepartment_create db
                                  \<lparr>ed_userId = employeeId, ed_departmentId = departmentId,
                                   ed_role = role, ed_hourlyRate = rate, ed_position = position\<rparr>)
                    in case written of
                         None \<Rightarrow> (db, Inl StorageError)
                       | Some db' \<Rightarrow>
                           (db', Inr (asView dept (getTotalEmployeeCount db' departmentId)
                                        (getEmployeeCost db' departmentId))))))"

text \<open>
  \<open>db.$transaction(async (tx) => ...)\<close>: the queries made through \<open>tx\<close> act on the
  transaction's copy of the data, which replaces the committed data when the callback
  returns (also when it returns \<open>null\<close>: only a thrown error rolls back). Steps 1 to 6 go
  through \<open>tx\<close>. Step 7 calls \<open>this.getTotalEmployeeCount\<close> and \<open>this.getEmployeeCost\<close>,
  which query the global client \<open>db\<close>: they run outside the transaction, before its
  commit, and a datastore without dirty reads answers them from the committed data.
\<close>

definition removeEmployeeFromDepartment ::
  "Db \<Rightarrow> string \<Rightarrow> string \<Rightarrow> string \<Rightarrow> Db \<times> (ServiceError + DepartmentViewInterface)" where
  "removeEmployeeFromDepartment db userId departmentId employeeId =
     (let tx = db in
      case user_findUnique tx userId of
        None \<Rightarrow> (tx, Inl UserNotFound)
      | Some user \<Rightarrow>
          (let userDepartmentRole = employeeDepartment_findFirst tx userId departmentId;
               hasPermission =
                 (user_role user = UserRole_ADMIN \<or>
                  map_option ed_role userDepartmentRole = Some EmployeeDepartmentRole_MANAGER \<or>
                  map_option ed_role userDepartmentRole = Some EmployeeDepartmentRole_ADMIN)
           in if \<not> hasPermission then (tx, Inl PermissionDenied)
              else (case employeeDepartment_findFirst tx employeeId departmentId of
                      None \<Rightarrow> (tx, Inl EmployeeNotFound)
                    | Some employeeInDepartment \<Rightarrow>
                        (case employeeDepartment_delete tx employeeId departmentId of
                           None \<Rightarrow> (db, Inl StorageError)
                         | Some tx' \<Rightarrow>
                             (case department_findUnique tx' departmentId of
                                None \<Rightarrow> (tx', Inl DepartmentNotFound)
                              | Some dept \<Rightarrow>
                                  (tx', Inr (asView dept
                                               (getTotalEmployeeCount db departmentId)
                                               (getEmployeeCost db departmentId))))))))"

section \<open>Client-side time entry state (the TimeEntryProvider context)\<close>

record TimeEntry =
  entry_id :: string
  entry_userId :: string
  entry_departmentId :: string
  entry_clockIn :: int
  entry_clockOut :: "int option"
  entry_hours :: "decimal option"

text \<open>The state of the provider that the clock actions read and set.\<close>

record TimeEntryState =
  currentEntry :: "TimeEntry option"
  recentEntries :: "TimeEntry list"
  loading :: bool

definition addEntry :: "TimeEntry \<Rightarrow> TimeEntryState \<Rightarrow> TimeEntryState" where
  "addEntry entry st = st\<lparr>recentEntries := entry # recentEntries st\<rparr>"

definition clockIn :: "TimeEntry \<Rightarrow> TimeEntryState \<Rightarrow> TimeEntryState" where
  "clockIn newEntry st = addEntry newEntry (st\<lparr>currentEntry := Some newEntry\<rparr>)"

text \<open>
  \<open>hours\<close> of the client: the difference of the two time values (integers, in
  milliseconds), divided by \<open>1000 * 60 * 60\<close>, both as numbers, formatted with
  \<open>toFixed(2)\<close> and read as a \<open>Decimal\<close>.
\<close>

definition clientHours :: "int \<Rightarrow> int \<Rightarrow> decimal" where
  "clientHours clockOutTime clockInTime =
     (let hours = jsDivide (jsSubtract (of_int clockOutTime) (of_int clockInTime)) (1000 * 60 * 60)
      in toFixed2 hours)"

text \<open>\<open>clockOut\<close> of the provider; \<open>now\<close> is the time value of \<open>new Date()\<close>.\<close>

definition clockOut :: "int \<Rightarrow> string \<Rightarrow> TimeEntryState \<Rightarrow> TimeEntryState" where
  "clockOut now timeEntryId st =
     (let st1 = st\<lparr>loading := True\<rparr>;
          st2 =
            (case currentEntry st1 of
               None \<Rightarrow> st1
             | Some cur \<Rightarrow>
                 (let clockOutTime = now;
                      clockInTime = entry_clockIn cur;
                      completedEntry =
                        cur\<lparr>entry_clockOut := Some clockOutTime,
                            entry_hours := Some (clientHours clockOutTime clockInTime)\<rparr>
                  in st1\<lparr>recentEntries :=
                           map (\<lambda>entry. if entry_id entry = timeEntryId then completedEntry else entry)
                             (recentEntries st1),
                         currentEntry := None\<rparr>))
      in st2\<lparr>loading := False\<rparr>)"


section \<open>Notions of the specification\<close>







text \<open>
  The specification's \<open>totalCost\<close>: the sum of the hourly rates of the department's
  members, as a decimal.
\<close>

definition rateTotal :: "Db \<Rightarrow> string \<Rightarrow> decimal" where
  "rateTotal db departmentId =
     sum_list (map ed_hourlyRate (filter (\<lambda>m. ed_departmentId m = departmentId) (employeeDepartments db)))"

text \<open>
  The sums that \<open>getEmployeeCost\<close> forms, from \<open>acc\<close> on and in the order of the rows, all
  have at most 20 significant digits: rounding leaves each of them as it is.
\<close>

fun partialSumsExact :: "decimal \<Rightarrow> decimal list \<Rightarrow> bool" where
  "partialSumsExact acc [] = True"
| "partialSumsExact acc (r # rs) = (finalise (acc + r) = acc + r \<and> partialSumsExact (acc + r) rs)"

definition ratesWithinPrecision :: "Db \<Rightarrow> string \<Rightarrow> bool" where
  "ratesWithinPrecision db departmentId =
     partialSumsExact 0 (map ed_hourlyRate (employeeDepartment_findMany db departmentId))"

text \<open>
  The actors that \<open>addEmployeeToDepartment\<close> admits: a global \<open>ADMIN\<close>, or an existing
  user whose role in the department is \<open>MANAGER\<close>.
\<close>

definition mayManageMembers :: "Db \<Rightarrow> string \<Rightarrow> string \<Rightarrow> bool" where
  "mayManageMembers db userId departmentId =
     (map_option user_role (user_findUnique db userId) = Some UserRole_ADMIN \<or>
      (user_findUnique db userId \<noteq> None \<and>
       map_option ed_role (employeeDepartment_findFirst db userId departmentId) =
         Some EmployeeDepartmentRole_MANAGER))"

text \<open>
  The actors that \<open>removeEmployeeFromDepartment\<close> admits: an existing user who is a global
  \<open>ADMIN\<close>, or a \<open>MANAGER\<close> or \<open>ADMIN\<close> of the department.
\<close>

definition mayRemoveMembers :: "Db \<Rightarrow> string \<Rightarrow> string \<Rightarrow> bool" where
  "mayRemoveMembers db userId departmentId =
     (user_findUnique db userId \<noteq> None \<and>
      (map_option user_role (user_findUnique db userId) = Some UserRole_ADMIN \<or>
       map_option ed_role (employeeDepartment_findFirst db userId departmentId) =
         Some EmployeeDepartmentRole_MANAGER \<or>
       map_option ed_role (employeeDepartment_findFirst db userId departmentId) =
         Some EmployeeDepartmentRole_ADMIN))"

text \<open>
  The specification's hours of a clock-out: the difference of the two times in hours,
  rounded to two decimal places in decimal arithmetic, a midpoint going up (the default
  rounding of decimal.js).
\<close>

definition decimalHours :: "int \<Rightarrow> int \<Rightarrow> decimal" where
  "decimalHours clockOutTime clockInTime =
     rat_of_int \<lfloor>rat_of_int (clockOutTime - clockInTime) / 3600000 * 100 + 1 / 2\<rfloor> / 100"

section \<open>Example data\<close>

text \<open>
  Monday 1 January 2024 in UTC: shift X of Dept1 from 09:00 to 13:00, shift Y of Dept2
  from 12:00 to 16:00 and shift Z of Dept2 from 13:00 to 17:00, as time values.
\<close>

definition shiftX :: WorkShift where
  "shiftX = \<lparr>shiftId = ''x'', dayOfWeek = 1, startTime = 1704099600000, endTime = 1704114000000\<rparr>"

definition shiftY :: WorkShift where
  "shiftY = \<lparr>shiftId = ''y'', dayOfWeek = 1, startTime = 1704110400000, endTime = 1704124800000\<rparr>"

definition shiftZ :: WorkShift where
  "shiftZ = \<lparr>shiftId = ''z'', dayOfWeek = 1, startTime = 1704114000000, endTime = 1704128400000\<rparr>"

definition scheduleDept1 :: ScheduleWithDepartment where
  "scheduleDept1 =
     \<lparr>scheduleId = ''s1'', weekStart = 1704067200000, schedules = [shiftX],
      department = \<lparr>departmentRefId = ''d1'', departmentRefName = ''Dept1''\<rparr>\<rparr>"

definition scheduleDept2 :: "WorkShift list \<Rightarrow> ScheduleWithDepartment" where
  "scheduleDept2 shifts =
     \<lparr>scheduleId = ''s2'', weekStart = 1704067200000, schedules = shifts,
      department = \<lparr>departmentRefId = ''d2'', departmentRefName = ''Dept2''\<rparr>\<rparr>"

text \<open>
  The department Sales with the members A (rate 20, \<open>ADMIN\<close> of the department) and
  B (rate 15, \<open>MANAGER\<close> of the department); \<open>root\<close> is the only global \<open>ADMIN\<close>, and C
  is a user without a membership.
\<close>

definition memberA :: EmployeeDepartment where
  "memberA =
     \<lparr>ed_userId = ''A'', ed_departmentId = ''sales'', ed_role = EmployeeDepartmentRole_ADMIN,
      ed_hourlyRate = 20, ed_position = ''lead''\<rparr>"

definition memberB :: EmployeeDepartment where
  "memberB =
     \<lparr>ed_userId = ''B'', ed_departmentId = ''sales'', ed_role = EmployeeDepartmentRole_MANAGER,
      ed_hourlyRate = 15, ed_position = ''clerk''\<rparr>"

definition sales :: Department where
  "sales = \<lparr>department_id = ''sales'', department_name = ''Sales'', department_info = None\<rparr>"

definition salesDb :: Db where
  "salesDb =
     \<lparr>users = [\<lparr>user_id = ''root'', user_role = UserRole_ADMIN\<rparr>,
               \<lparr>user_id = ''A'', user_role = UserRole_USER\<rparr>,
               \<lparr>user_id = ''B'', user_role = UserRole_USER\<rparr>,
               \<lparr>user_id = ''C'', user_role = UserRole_USER\<rparr>],
      departments = [sales],
      employeeDepartments = [memberA, memberB]\<rparr>"

definition salesDbWithC :: Db where
  "salesDbWithC =
     salesDb\<lparr>employeeDepartments := [memberA, memberB,
         \<lparr>ed_userId = ''C'', ed_departmentId = ''sales'', ed_role = EmployeeDepartmentRole_MEMBER,
          ed_hourlyRate = 101 / 10, ed_position = ''trainee''\<rparr>]\<rparr>"

text \<open>
  Sales with the single member A at the rate \<open>2^53\<close>.
\<close>

definition largeRateDb :: Db where
  "largeRateDb =
     salesDb\<lparr>employeeDepartments :=
       [\<lparr>ed_userId = ''A'', ed_departmentId = ''sales'', ed_role = EmployeeDepartmentRole_ADMIN,
         ed_hourlyRate = 9007199254740992, ed_position = ''lead''\<rparr>]\<rparr>"

definition largeRateDbWithC :: Db where
  "largeRateDbWithC =
     salesDb\<lparr>employeeDepartments :=
       [\<lparr>ed_userId = ''A'', ed_departmentId = ''sales'', ed_role = EmployeeDepartmentRole_ADMIN,
         ed_hourlyRate = 9007199254740992, ed_position = ''lead''\<rparr>,
        \<lparr>ed_userId = ''C'', ed_departmentId = ''sales'', ed_role = EmployeeDepartmentRole_MEMBER,
         ed_hourlyRate = 100001 / 100000, ed_position = ''trainee''\<rparr>]\<rparr>"

text \<open>
  A state of the provider with no open entry, and one closed entry in the list.
\<close>

definition closedEntry :: TimeEntry where
  "closedEntry =
     \<lparr>entry_id = ''e1'', entry_userId = ''A'', entry_departmentId = ''sales'',
      entry_clockIn = 1704099600000, entry_clockOut = Some 1704130200000,
      entry_hours = Some (17 / 2)\<rparr>"

definition clockedOutState :: TimeEntryState where
  "clockedOutState = \<lparr>currentEntry = None, recentEntries = [closedEntry], loading = False\<rparr>"

text \<open>
  An entry opened on 2 January 2024 at 09:00:00 UTC, and the state of the provider while
  it is open.
\<close>

definition openEntry :: TimeEntry where
  "openEntry =
     \<lparr>entry_id = ''e2'', entry_userId = ''A'', entry_departmentId = ''sales'',
      entry_clockIn = 1704186000000, entry_clockOut = None, entry_hours = None\<rparr>"

definition clockedInState :: TimeEntryState where
  "clockedInState =
     \<lparr>currentEntry = Some openEntry, recentEntries = [openEntry, closedEntry], loading = False\<rparr>"


section \<open>The conflict detector as a list of positions\<close>

























text \<open>
  C1: shift X of Dept1 ends on Monday at 13:00, when shift Z of Dept2 starts. The two
  shifts do not overlap in the strict sense (\<open>start1 < end2\<close> and \<open>start2 < end1\<close>), and the
  detector reports them as a conflict: the second disjunct of its test,
  \<open>start2 <= end1 && end2 > start1\<close>, holds for touching shifts.
\<close>

theorem touching_shifts_reported:
  "endTime shiftX = startTime shiftZ \<and>
   \<not> (startTime shiftX < endTime shiftZ \<and> startTime shiftZ < endTime shiftX) \<and>
   checkScheduleConflicts [scheduleDept1, scheduleDept2 [shiftZ]] =
     \<lparr>hasConflict = True,
      conflicts = [\<lparr>shift1 = withDepartmentName shiftX ''Dept1'',
                    shift2 = withDepartmentName shiftZ ''Dept2''\<rparr>]\<rparr>"
  by (simp add: checkScheduleConflicts_def compareSchedules_def compareShifts_def hasOverlap_def
      scheduleDept1_def scheduleDept2_def shiftX_def shiftZ_def withDepartmentName_def upt_rec)

section \<open>The department service\<close>

text \<open>
  Rounding to 20 significant digits leaves a decimal with at most 20 digits as it is:
  an integer below \<open>10^20\<close> in magnitude, times a power of ten.
\<close>

lemma decimalDigits_pos: "0 < n \<Longrightarrow> 1 \<le> decimalDigits n"
proof (induction n rule: decimalDigits.induct)
  case (1 n)
  have "0 \<le> decimalDigits (n div 10)"
  proof (cases "0 < n div 10")
    case True
    with 1 show ?thesis by simp
  next
    case False
    then show ?thesis by (subst decimalDigits.simps) simp
  qed
  with 1(2) show ?case
    by (subst decimalDigits.simps) simp
qed

lemma decimalDigits_bounds:
  "0 < n \<Longrightarrow> 10 ^ nat (decimalDigits n - 1) \<le> n \<and> n < 10 ^ nat (decimalDigits n)"
proof (induction n rule: decimalDigits.induct)
  case (1 n)
  show ?case
  proof (cases "0 < n div 10")
    case False
    with 1(2) have small: "n < 10"
      by linarith
    have "decimalDigits (n div 10) = 0"
      using False by (subst decimalDigits.simps) simp
    then have "decimalDigits n = 1"
      using 1(2) by (subst decimalDigits.simps) simp
    with 1(2) small show ?thesis
      by simp
  next
    case True
    define m where "m = n div 10"
    define d where "d = decimalDigits m"
    have ih: "10 ^ nat (d - 1) \<le> m" "m < 10 ^ nat d"
      using 1(1) [OF 1(2)] True unfolding m_def d_def by simp_all
    have d: "1 \<le> d"
      unfolding d_def using True by (intro decimalDigits_pos) (simp add: m_def)
    have dn: "decimalDigits n = d + 1"
      using 1(2) unfolding d_def m_def by (subst decimalDigits.simps) simp
    have nat1: "nat (d + 1 - 1) = Suc (nat (d - 1))" "nat (d + 1) = Suc (nat d)"
      using d by simp_all
    have lo: "10 * m \<le> n" and hi: "n < 10 * (m + 1)"
      unfolding m_def by simp_all
    have "10 ^ nat (d + 1 - 1) \<le> n"
      using ih(1) lo unfolding nat1 by simp
    moreover have "n < 10 ^ nat (d + 1)"
      using ih(2) hi unfolding nat1 by simp
    ultimately show ?thesis
      unfolding dn by simp
  qed
qed


lemma floorLog10_le:
  assumes "0 < x"
  shows "10 powi (floorLog10 x) \<le> x"
proof (cases "1 \<le> x")
  case True
  let ?n = "\<lfloor>x\<rfloor>"
  have n: "0 < ?n"
    using True by simp
  have b: "1 \<le> decimalDigits ?n"
    using n by (rule decimalDigits_pos)
  have "(10::int) ^ nat (decimalDigits ?n - 1) \<le> ?n"
    using decimalDigits_bounds [OF n] by simp
  then have "rat_of_int (10 ^ nat (decimalDigits ?n - 1)) \<le> rat_of_int ?n"
    by (simp only: of_int_le_iff)
  also have "\<dots> \<le> x"
    by simp
  finally have "(10::rat) ^ nat (decimalDigits ?n - 1) \<le> x"
    by simp
  then show ?thesis
    using True b by (simp add: floorLog10_def power_int_def)
next
  case False
  let ?m = "\<lceil>1 / x\<rceil>"
  let ?k = "decimalDigits (?m - 1)"
  have y: "1 < 1 / x"
    using False assms by simp
  then have m: "0 < ?m - 1"
    by (simp add: less_ceiling_iff)
  have k: "1 \<le> ?k"
    using m by (rule decimalDigits_pos)
  have "?m - 1 < 10 ^ nat ?k"
    using decimalDigits_bounds [OF m] by simp
  then have "?m \<le> 10 ^ nat ?k"
    by simp
  then have mk: "rat_of_int ?m \<le> rat_of_int (10 ^ nat ?k)"
    by (simp only: of_int_le_iff)
  have "1 / x \<le> rat_of_int ?m"
    by (rule le_of_int_ceiling)
  also note mk
  also have "rat_of_int (10 ^ nat ?k) = 10 ^ nat ?k"
    by simp
  finally have "1 / x \<le> 10 ^ nat ?k" .
  then have "1 \<le> 10 ^ nat ?k * x"
    using assms by (simp add: field_simps)
  then have "inverse 10 ^ nat ?k \<le> x"
    by (simp add: field_simps power_inverse [symmetric])
  then show ?thesis
    using False k by (simp add: floorLog10_def power_int_def)
qed

lemma finalise_exact:
  assumes "\<bar>n\<bar> < 10 ^ 20"
  shows "finalise (rat_of_int n * 10 powi k) = rat_of_int n * 10 powi k"
proof (cases "n = 0")
  case True
  then show ?thesis
    by (simp add: finalise_def)
next
  case False
  define x where "x = rat_of_int n * 10 powi k"
  define e where "e = floorLog10 \<bar>x\<bar>"
  have p: "(0::rat) < 10 powi k"
    by simp
  have ax: "\<bar>x\<bar> = rat_of_int \<bar>n\<bar> * 10 powi k"
    unfolding x_def by (simp add: abs_mult)
  have x0: "0 < \<bar>x\<bar>"
    unfolding ax using False p by simp
  have "rat_of_int \<bar>n\<bar> < rat_of_int (10 ^ 20)"
    using assms by (simp only: of_int_less_iff)
  then have "\<bar>x\<bar> < 10 ^ 20 * 10 powi k"
    unfolding ax using p by simp
  also have "\<dots> = 10 powi (k + 20)"
    by (simp add: power_int_add)
  finally have up: "\<bar>x\<bar> < 10 powi (k + 20)" .
  have "10 powi e \<le> \<bar>x\<bar>"
    unfolding e_def using x0 by (rule floorLog10_le)
  with up have "(10::rat) powi e < 10 powi (k + 20)"
    by linarith
  have e: "e < k + 20"
  proof (rule ccontr)
    assume "\<not> e < k + 20"
    then have "k + 20 \<le> e"
      by simp
    then have "(10::rat) powi (k + 20) \<le> 10 powi e"
      by (rule power_int_increasing) simp
    with \<open>(10::rat) powi e < 10 powi (k + 20)\<close> show False
      by simp
  qed
  define m where "m = nat (k + 19 - e)"
  have m: "int m = k + 19 - e"
    using e by (simp add: m_def)
  have u: "(10::rat) powi k = 10 ^ m * 10 powi (e - 19)"
  proof -
    have "(10::rat) powi k = 10 powi (int m + (e - 19))"
      by (simp add: m)
    also have "\<dots> = 10 powi (int m) * 10 powi (e - 19)"
      by (rule power_int_add) simp
    finally show ?thesis
      by simp
  qed
  have "\<bar>x\<bar> / 10 powi (e - 19) = rat_of_int (\<bar>n\<bar> * 10 ^ m)"
    unfolding ax u by simp
  moreover have "\<lfloor>rat_of_int (\<bar>n\<bar> * 10 ^ m) + 1 / 2\<rfloor> = \<bar>n\<bar> * 10 ^ m"
    by (rule floor_unique) simp_all
  ultimately have "\<lfloor>\<bar>x\<bar> / 10 powi (e - 19) + 1 / 2\<rfloor> = \<bar>n\<bar> * 10 ^ m"
    by (simp only:)
  then have "finalise x = sgn x * rat_of_int (\<bar>n\<bar> * 10 ^ m) * 10 powi (e - 19)"
    using x0 by (simp add: finalise_def precision_def Let_def e_def)
  also have "\<dots> = sgn x * \<bar>x\<bar>"
    unfolding ax u by simp
  also have "\<dots> = x"
    by (simp add: mult_sgn_abs)
  finally show ?thesis
    unfolding x_def .
qed

lemma fold_plus_sum_list:
  "partialSumsExact a (map h xs) \<Longrightarrow>
   fold (\<lambda>emp acc. Decimal_plus acc (h emp)) xs a = a + sum_list (map h xs)"
  by (induction xs arbitrary: a) (simp_all add: Decimal_plus_def add.assoc)

lemma getEmployeeCost_rateTotal:
  "ratesWithinPrecision db d \<Longrightarrow> getEmployeeCost db d = toNumber (rateTotal db d)"
  by (simp add: getEmployeeCost_def rateTotal_def ratesWithinPrecision_def
      employeeDepartment_findMany_def fold_plus_sum_list)

lemma find_updateFirst:
  "(\<And>x. P x \<Longrightarrow> P (f x)) \<Longrightarrow> find P (updateFirst P f xs) = map_option f (find P xs)"
  by (induction xs) auto

lemma map_updateFirst_preserved:
  "(\<And>x. g (f x) = g x) \<Longrightarrow> map g (updateFirst P f xs) = map g xs"
  by (induction xs) auto

lemma length_updateFirst: "length (updateFirst P f xs) = length xs"
  by (induction xs) auto

lemma filter_key_length:
  "length (filter (\<lambda>m. g m = d) xs) = length (filter (\<lambda>k. k = d) (map g xs))"
  by (induction xs) auto

lemma count_updateFirst:
  assumes "\<And>x. g (f x) = g x"
  shows "length (filter (\<lambda>m. g m = d) (updateFirst P f xs)) = length (filter (\<lambda>m. g m = d) xs)"
  by (simp only: filter_key_length [of g] map_updateFirst_preserved [of g f, OF assms])

lemma find_append_new: "find P xs = None \<Longrightarrow> P m \<Longrightarrow> find P (xs @ [m]) = Some m"
  by (induction xs) (auto split: if_splits)

lemma sum_deleteFirst:
  "find P xs = Some m \<Longrightarrow>
   sum_list (map h (filter Q (deleteFirst P xs))) =
   sum_list (map h (filter Q xs)) - (if Q m then h m else (0::rat))"
  by (induction xs) (auto split: if_splits)

lemma find_Some_holds: "find P xs = Some m \<Longrightarrow> P m"
  by (induction xs) (auto split: if_splits)


lemma add_existing:
  assumes perm: "mayManageMembers db userId departmentId"
    and dept: "getDepartmentById db departmentId = Some dept"
    and ex: "employeeDepartment_findFirst db employeeId departmentId = Some old"
  shows "addEmployeeToDepartment db userId departmentId employeeId role rate position =
           (db\<lparr>employeeDepartments :=
                  updateFirst (isMembership employeeId departmentId)
                    (\<lambda>m. m\<lparr>ed_role := role, ed_hourlyRate := rate, ed_position := position\<rparr>)
                    (employeeDepartments db)\<rparr>,
            Inr (asView dept (getTotalEmployeeCount db departmentId)
                   (getEmployeeCost (db\<lparr>employeeDepartments :=
                  updateFirst (isMembership employeeId departmentId)
                    (\<lambda>m. m\<lparr>ed_role := role, ed_hourlyRate := rate, ed_position := position\<rparr>)
                    (employeeDepartments db)\<rparr>) departmentId)))"
proof -
  have cnt: "getTotalEmployeeCount (db\<lparr>employeeDepartments :=
                  updateFirst (isMembership employeeId departmentId)
                    (\<lambda>m. m\<lparr>ed_role := role, ed_hourlyRate := rate, ed_position := position\<rparr>)
                    (employeeDepartments db)\<rparr>) departmentId = getTotalEmployeeCount db departmentId"
    by (simp add: getTotalEmployeeCount_def employeeDepartment_count_def
          employeeDepartment_findMany_def count_updateFirst)
  from perm have ok: "\<not> (user_findUnique db userId = None \<or>
            (map_option user_role (user_findUnique db userId) \<noteq> Some UserRole_ADMIN \<and>
             map_option ed_role (employeeDepartment_findFirst db userId departmentId) \<noteq> Some EmployeeDepartmentRole_MANAGER))"
    by (auto simp: mayManageMembers_def)
  show ?thesis
    unfolding addEmployeeToDepartment_def Let_def
    using ok dept ex cnt by (simp add: employeeDepartment_update_def)
qed

lemma add_new:
  assumes perm: "mayManageMembers db userId departmentId"
    and dept: "getDepartmentById db departmentId = Some dept"
    and new: "employeeDepartment_findFirst db employeeId departmentId = None"
    and emp: "user_findUnique db employeeId \<noteq> None"
  shows "addEmployeeToDepartment db userId departmentId employeeId role rate position =
           (db\<lparr>employeeDepartments := employeeDepartments db @
                  [\<lparr>ed_userId = employeeId, ed_departmentId = departmentId,
                    ed_role = role, ed_hourlyRate = rate, ed_position = position\<rparr>]\<rparr>,
            Inr (asView dept (getTotalEmployeeCount db departmentId + 1)
                   (getEmployeeCost (db\<lparr>employeeDepartments := employeeDepartments db @
                      [\<lparr>ed_userId = employeeId, ed_departmentId = departmentId,
                        ed_role = role, ed_hourlyRate = rate, ed_position = position\<rparr>]\<rparr>)
                      departmentId)))"
proof -
  from perm have ok: "\<not> (user_findUnique db userId = None \<or>
            (map_option user_role (user_findUnique db userId) \<noteq> Some UserRole_ADMIN \<and>
             map_option ed_role (employeeDepartment_findFirst db userId departmentId) \<noteq> Some EmployeeDepartmentRole_MANAGER))"
    by (auto simp: mayManageMembers_def)
  have d: "department_findUnique db departmentId \<noteq> None"
    using dept by (simp add: getDepartmentById_def)
  show ?thesis
    unfolding addEmployeeToDepartment_def Let_def
    using ok dept new emp d
    by (simp add: employeeDepartment_create_def
          getTotalEmployeeCount_def employeeDepartment_count_def employeeDepartment_findMany_def)
qed


lemma add_success_new:
  assumes new: "employeeDepartment_findFirst db employeeId departmentId = None"
    and add: "addEmployeeToDepartment db userId departmentId employeeId role rate position = (db1, Inr v1)"
  shows "db1 = db\<lparr>employeeDepartments := employeeDepartments db @
                  [\<lparr>ed_userId = employeeId, ed_departmentId = departmentId,
                    ed_role = role, ed_hourlyRate = rate, ed_position = position\<rparr>]\<rparr>"
    and "totalCost v1 = getEmployeeCost db1 departmentId"
    and "employeeCount v1 = getTotalEmployeeCount db1 departmentId"
  using add new
  unfolding addEmployeeToDepartment_def Let_def
  by (auto simp: employeeDepartment_create_def asView_def split: if_splits option.splits)

lemma remove_success:
  assumes "removeEmployeeFromDepartment db userId departmentId employeeId = (db2, Inr v2)"
  shows "employeeDepartment_findFirst db employeeId departmentId \<noteq> None"
    and "db2 = db\<lparr>employeeDepartments :=
                  deleteFirst (isMembership employeeId departmentId) (employeeDepartments db)\<rparr>"
    and "totalCost v2 = getEmployeeCost db departmentId"
    and "employeeCount v2 = getTotalEmployeeCount db departmentId"
  using assms
  unfolding removeEmployeeFromDepartment_def Let_def
  by (auto simp: employeeDepartment_delete_def asView_def split: if_splits option.splits)

lemma rateTotal_append:
  "rateTotal (db\<lparr>employeeDepartments := employeeDepartments db @ [m]\<rparr>) d =
     rateTotal db d + (if ed_departmentId m = d then ed_hourlyRate m else 0)"
  by (simp add: rateTotal_def)

lemma rateTotal_delete:
  assumes "employeeDepartment_findFirst db e d = Some m"
  shows "rateTotal (db\<lparr>employeeDepartments := deleteFirst (isMembership e d) (employeeDepartments db)\<rparr>) d =
     rateTotal db d - ed_hourlyRate m"
proof -
  have "isMembership e d m"
    using assms by (auto simp: employeeDepartment_findFirst_def dest: find_Some_holds)
  then have "ed_departmentId m = d"
    by (simp add: isMembership_def)
  then show ?thesis
    using sum_deleteFirst [of "isMembership e d" "employeeDepartments db" m ed_hourlyRate
        "\<lambda>m. ed_departmentId m = d"] assms
    by (simp add: rateTotal_def employeeDepartment_findFirst_def)
qed

lemma overwritten_membership:
  "isMembership e d old \<Longrightarrow>
   old\<lparr>ed_role := role, ed_hourlyRate := rate, ed_position := position\<rparr> =
   \<lparr>ed_userId = e, ed_departmentId = d, ed_role = role, ed_hourlyRate = rate, ed_position = position\<rparr>"
  by (cases old) (simp add: isMembership_def)

text \<open>
  C6: for an actor that may manage the members of an existing department,
  \<open>addEmployeeToDepartment\<close> succeeds on an employee who is already a member: the membership
  then holds the new role, rate and position, the table has as many rows as before and
  the department's \<open>employeeCount\<close> is unchanged. On an existing user who is not a member
  it succeeds too: the membership is created and \<open>employeeCount\<close> grows by exactly 1.
\<close>

theorem addEmployeeToDepartment_upsert:
  assumes perm: "mayManageMembers db userId departmentId"
    and dept: "getDepartmentById db departmentId = Some dept"
  shows "(employeeDepartment_findFirst db employeeId departmentId \<noteq> None \<longrightarrow>
           (\<exists>db' v. addEmployeeToDepartment db userId departmentId employeeId role rate position = (db', Inr v) \<and>
              employeeDepartment_findFirst db' employeeId departmentId =
                Some \<lparr>ed_userId = employeeId, ed_departmentId = departmentId, ed_role = role,
                      ed_hourlyRate = rate, ed_position = position\<rparr> \<and>
              length (employeeDepartments db') = length (employeeDepartments db) \<and>
              getTotalEmployeeCount db' departmentId = getTotalEmployeeCount db departmentId \<and>
              employeeCount v = getTotalEmployeeCount db departmentId)) \<and>
         (employeeDepartment_findFirst db employeeId departmentId = None \<and>
          user_findUnique db employeeId \<noteq> None \<longrightarrow>
           (\<exists>db' v. addEmployeeToDepartment db userId departmentId employeeId role rate position = (db', Inr v) \<and>
              employeeDepartment_findFirst db' employeeId departmentId =
                Some \<lparr>ed_userId = employeeId, ed_departmentId = departmentId, ed_role = role,
                      ed_hourlyRate = rate, ed_position = position\<rparr> \<and>
              getTotalEmployeeCount db' departmentId = getTotalEmployeeCount db departmentId + 1 \<and>
              employeeCount v = getTotalEmployeeCount db departmentId + 1))"
proof (intro conjI impI)
  let ?f = "\<lambda>m. m\<lparr>ed_role := role, ed_hourlyRate := rate, ed_position := position\<rparr>"
  let ?new = "\<lparr>ed_userId = employeeId, ed_departmentId = departmentId, ed_role = role,
                      ed_hourlyRate = rate, ed_position = position\<rparr>"
  {
    assume "employeeDepartment_findFirst db employeeId departmentId \<noteq> None"
    then obtain old where old: "employeeDepartment_findFirst db employeeId departmentId = Some old"
      by auto
    then have key: "isMembership employeeId departmentId old"
      by (auto simp: employeeDepartment_findFirst_def dest: find_Some_holds)
    let ?db' = "db\<lparr>employeeDepartments :=
                  updateFirst (isMembership employeeId departmentId) ?f (employeeDepartments db)\<rparr>"
    have "find (isMembership employeeId departmentId)
            (updateFirst (isMembership employeeId departmentId) ?f (employeeDepartments db)) =
          map_option ?f (find (isMembership employeeId departmentId) (employeeDepartments db))"
      by (rule find_updateFirst) (simp add: isMembership_def)
    then have "employeeDepartment_findFirst ?db' employeeId departmentId = Some (?f old)"
      using old by (simp add: employeeDepartment_findFirst_def)
    then have found: "employeeDepartment_findFirst ?db' employeeId departmentId = Some ?new"
      using overwritten_membership [OF key] by simp
    have cnt: "getTotalEmployeeCount ?db' departmentId = getTotalEmployeeCount db departmentId"
      by (simp add: getTotalEmployeeCount_def employeeDepartment_count_def
          employeeDepartment_findMany_def count_updateFirst)
    show "\<exists>db' v. addEmployeeToDepartment db userId departmentId employeeId role rate position = (db', Inr v) \<and>
              employeeDepartment_findFirst db' employeeId departmentId = Some ?new \<and>
              length (employeeDepartments db') = length (employeeDepartments db) \<and>
              getTotalEmployeeCount db' departmentId = getTotalEmployeeCount db departmentId \<and>
              employeeCount v = getTotalEmployeeCount db departmentId"
      using add_existing [OF perm dept old, of role rate position] found cnt
      by (simp add: length_updateFirst asView_def)
  }
  {
    assume a: "employeeDepartment_findFirst db employeeId departmentId = None \<and>
          user_findUnique db employeeId \<noteq> None"
    let ?db' = "db\<lparr>employeeDepartments := employeeDepartments db @ [?new]\<rparr>"
    have found: "employeeDepartment_findFirst ?db' employeeId departmentId = Some ?new"
      using a by (simp add: employeeDepartment_findFirst_def find_append_new isMembership_def)
    have cnt: "getTotalEmployeeCount ?db' departmentId = getTotalEmployeeCount db departmentId + 1"
      by (simp add: getTotalEmployeeCount_def employeeDepartment_count_def
          employeeDepartment_findMany_def)
    show "\<exists>db' v. addEmployeeToDepartment db userId departmentId employeeId role rate position = (db', Inr v) \<and>
              employeeDepartment_findFirst db' employeeId departmentId = Some ?new \<and>
              getTotalEmployeeCount db' departmentId = getTotalEmployeeCount db departmentId + 1 \<and>
              employeeCount v = getTotalEmployeeCount db departmentId + 1"
      using add_new [OF perm dept, of employeeId role rate position] a found cnt
      by (simp add: asView_def)
  }
qed

theorem addEmployeeToDepartment_upsert_witness:
  "mayManageMembers salesDb ''B'' ''sales'' \<and>
   getDepartmentById salesDb ''sales'' = Some sales \<and>
   employeeDepartment_findFirst salesDb ''A'' ''sales'' \<noteq> None \<and>
   employeeDepartment_findFirst salesDb ''C'' ''sales'' = None \<and>
   user_findUnique salesDb ''C'' \<noteq> None \<and>
   getTotalEmployeeCount salesDb ''sales'' = 2 \<and>
   (\<exists>db' v. addEmployeeToDepartment salesDb ''B'' ''sales'' ''A'' EmployeeDepartmentRole_MEMBER 22 ''senior'' = (db', Inr v) \<and>
      employeeDepartment_findFirst db' ''A'' ''sales'' =
        Some \<lparr>ed_userId = ''A'', ed_departmentId = ''sales'', ed_role = EmployeeDepartmentRole_MEMBER,
              ed_hourlyRate = 22, ed_position = ''senior''\<rparr> \<and>
      length (employeeDepartments db') = 2 \<and>
      getTotalEmployeeCount db' ''sales'' = 2 \<and> employeeCount v = 2) \<and>
   (\<exists>db' v. addEmployeeToDepartment salesDb ''B'' ''sales'' ''C'' EmployeeDepartmentRole_MEMBER 12 ''trainee'' = (db', Inr v) \<and>
      employeeDepartment_findFirst db' ''C'' ''sales'' =
        Some \<lparr>ed_userId = ''C'', ed_departmentId = ''sales'', ed_role = EmployeeDepartmentRole_MEMBER,
              ed_hourlyRate = 12, ed_position = ''trainee''\<rparr> \<and>
      getTotalEmployeeCount db' ''sales'' = 3 \<and> employeeCount v = 3)"
proof -
  have p: "mayManageMembers salesDb ''B'' ''sales''"
    by code_simp
  have d: "getDepartmentById salesDb ''sales'' = Some sales"
    by code_simp
  have a: "employeeDepartment_findFirst salesDb ''A'' ''sales'' \<noteq> None"
    by code_simp
  have c: "employeeDepartment_findFirst salesDb ''C'' ''sales'' = None"
    by code_simp
  have u: "user_findUnique salesDb ''C'' \<noteq> None"
    by code_simp
  have n: "getTotalEmployeeCount salesDb ''sales'' = 2"
    by code_simp
  have l: "length (employeeDepartments salesDb) = 2"
    by code_simp
  show ?thesis
    using p d a c u n l
      addEmployeeToDepartment_upsert [OF p d, of "''A''" EmployeeDepartmentRole_MEMBER 22 "''senior''"]
      addEmployeeToDepartment_upsert [OF p d, of "''C''" EmployeeDepartmentRole_MEMBER 12 "''trainee''"]
    by simp
qed

lemma deleteFirst_append_new:
  "find P xs = None \<Longrightarrow> P m \<Longrightarrow> deleteFirst P (xs @ [m]) = xs"
  by (induction xs) (auto split: if_splits)

text \<open>
  C3, as amended: \<open>totalCost\<close> is the number nearest to the sum of the members' hourly
  rates as decimal.js computes it, every partial sum rounded to 20 significant digits.
  While the partial sums of the department's rates have at most 20 significant digits,
  before and after the call, the sum is exact: after a new member with rate \<open>R\<close> is added
  it is the prior sum plus \<open>R\<close>, and after that member is removed it is the sum minus
  \<open>R\<close>. The department's \<open>totalCost\<close> is then again what it was before the two calls:
  nothing accumulates.
\<close>

theorem totalCost_is_rate_sum_within_precision:
  assumes new: "employeeDepartment_findFirst db employeeId departmentId = None"
    and add: "addEmployeeToDepartment db userId departmentId employeeId role R position = (db1, Inr v1)"
    and remove: "removeEmployeeFromDepartment db1 userId' departmentId employeeId = (db2, Inr v2)"
    and exact: "ratesWithinPrecision db departmentId"
    and exact1: "ratesWithinPrecision db1 departmentId"
  shows "getEmployeeCost db departmentId = toNumber (rateTotal db departmentId) \<and>
         getEmployeeCost db1 departmentId = toNumber (rateTotal db departmentId + R) \<and>
         totalCost v1 = toNumber (rateTotal db departmentId + R) \<and>
         rateTotal db1 departmentId = rateTotal db departmentId + R \<and>
         rateTotal db2 departmentId = rateTotal db1 departmentId - R \<and>
         getEmployeeCost db2 departmentId = toNumber (rateTotal db1 departmentId - R) \<and>
         getEmployeeCost db2 departmentId = getEmployeeCost db departmentId"
proof -
  let ?m = "\<lparr>ed_userId = employeeId, ed_departmentId = departmentId,
             ed_role = role, ed_hourlyRate = R, ed_position = position\<rparr>"
  have db1: "db1 = db\<lparr>employeeDepartments := employeeDepartments db @ [?m]\<rparr>"
    and v1: "totalCost v1 = getEmployeeCost db1 departmentId"
    using add_success_new [OF new add] by simp_all
  have t1: "rateTotal db1 departmentId = rateTotal db departmentId + R"
    unfolding db1 by (simp add: rateTotal_append)
  have found: "employeeDepartment_findFirst db1 employeeId departmentId = Some ?m"
    unfolding db1 using new
    by (simp add: employeeDepartment_findFirst_def find_append_new isMembership_def)
  have db2: "db2 = db1\<lparr>employeeDepartments :=
                  deleteFirst (isMembership employeeId departmentId) (employeeDepartments db1)\<rparr>"
    using remove_success(2) [OF remove] .
  have t2: "rateTotal db2 departmentId = rateTotal db1 departmentId - R"
    unfolding db2 using rateTotal_delete [OF found] by simp
  have "deleteFirst (isMembership employeeId departmentId) (employeeDepartments db @ [?m]) =
        employeeDepartments db"
    using new
    by (intro deleteFirst_append_new) (simp_all add: employeeDepartment_findFirst_def isMembership_def)
  then have same: "db2 = db"
    unfolding db2 db1 by simp
  have c: "getEmployeeCost db departmentId = toNumber (rateTotal db departmentId)"
    using exact by (rule getEmployeeCost_rateTotal)
  have c1: "getEmployeeCost db1 departmentId = toNumber (rateTotal db1 departmentId)"
    using exact1 by (rule getEmployeeCost_rateTotal)
  have g1: "getEmployeeCost db1 departmentId = toNumber (rateTotal db departmentId + R)"
    using c1 by (simp only: t1)
  have g2: "totalCost v1 = toNumber (rateTotal db departmentId + R)"
    using v1 by (simp only: g1)
  have r2: "rateTotal db1 departmentId - R = rateTotal db departmentId"
    by (simp add: t1)
  have g3: "getEmployeeCost db2 departmentId = toNumber (rateTotal db1 departmentId - R)"
    unfolding same r2 by (rule c)
  have g4: "getEmployeeCost db2 departmentId = getEmployeeCost db departmentId"
    unfolding same by (rule refl)
  show ?thesis
    by (intro conjI c g1 g2 t1 t2 g3 g4)
qed

theorem totalCost_is_rate_sum_within_precision_witness:
  "employeeDepartment_findFirst salesDb ''C'' ''sales'' = None \<and>
   addEmployeeToDepartment salesDb ''root'' ''sales'' ''C'' EmployeeDepartmentRole_MEMBER (101 / 10) ''trainee'' =
     (salesDbWithC, Inr (asView sales 3 (toNumber (451 / 10)))) \<and>
   removeEmployeeFromDepartment salesDbWithC ''A'' ''sales'' ''C'' =
     (salesDb, Inr (asView sales 3 (toNumber (451 / 10)))) \<and>
   ratesWithinPrecision salesDb ''sales'' \<and>
   ratesWithinPrecision salesDbWithC ''sales'' \<and>
   rateTotal salesDb ''sales'' = 35 \<and>
   getEmployeeCost salesDb ''sales'' = toNumber (rateTotal salesDb ''sales'') \<and>
   getEmployeeCost salesDbWithC ''sales'' = toNumber (rateTotal salesDb ''sales'' + 101 / 10) \<and>
   totalCost (asView sales 3 (toNumber (451 / 10))) = toNumber (rateTotal salesDb ''sales'' + 101 / 10) \<and>
   rateTotal salesDbWithC ''sales'' = rateTotal salesDb ''sales'' + 101 / 10 \<and>
   rateTotal salesDb ''sales'' = rateTotal salesDbWithC ''sales'' - 101 / 10 \<and>
   getEmployeeCost salesDb ''sales'' = toNumber (rateTotal salesDbWithC ''sales'' - 101 / 10) \<and>
   getEmployeeCost salesDb ''sales'' = getEmployeeCost salesDb ''sales''"
proof -
  have new: "employeeDepartment_findFirst salesDb ''C'' ''sales'' = None"
    by code_simp
  have add: "addEmployeeToDepartment salesDb ''root'' ''sales'' ''C'' EmployeeDepartmentRole_MEMBER (101 / 10) ''trainee'' =
     (salesDbWithC, Inr (asView sales 3 (toNumber (451 / 10))))"
    by code_simp
  have remove: "removeEmployeeFromDepartment salesDbWithC ''A'' ''sales'' ''C'' =
     (salesDb, Inr (asView sales 3 (toNumber (451 / 10))))"
    by code_simp
  have exact: "ratesWithinPrecision salesDb ''sales''"
    by code_simp
  have exact1: "ratesWithinPrecision salesDbWithC ''sales''"
    by code_simp
  have t: "rateTotal salesDb ''sales'' = 35"
    by code_simp
  show ?thesis
    using new add remove exact exact1 t
      totalCost_is_rate_sum_within_precision [OF new add remove exact exact1]
    by (elim conjE, intro conjI) assumption+
qed

text \<open>
  C3, as stated, fails when a sum needs more than 20 significant digits. Sales has the
  single member A at the rate \<open>2^53\<close>, and root adds C at the rate 1.00001. The exact sum
  9007199254740993.00001 has 21 digits and \<open>plus\<close> rounds it to 9007199254740993, whose
  nearest number is \<open>2^53\<close>: the \<open>totalCost\<close> returned after the add is the \<open>totalCost\<close>
  before it, not the prior total plus the rate.
\<close>

theorem totalCost_rounded_beyond_precision:
  "employeeDepartment_findFirst largeRateDb ''C'' ''sales'' = None \<and>
   addEmployeeToDepartment largeRateDb ''root'' ''sales'' ''C'' EmployeeDepartmentRole_MEMBER
       (100001 / 100000) ''trainee'' =
     (largeRateDbWithC, Inr (asView sales 2 9007199254740992)) \<and>
   getEmployeeCost largeRateDb ''sales'' = 9007199254740992 \<and>
   getEmployeeCost largeRateDbWithC ''sales'' = 9007199254740992 \<and>
   rateTotal largeRateDb ''sales'' = 9007199254740992 \<and>
   rateTotal largeRateDbWithC ''sales'' = 9007199254740992 + 100001 / 100000 \<and>
   Decimal_plus 9007199254740992 (100001 / 100000) = 9007199254740993 \<and>
   toNumber (rateTotal largeRateDbWithC ''sales'') = 9007199254740994 \<and>
   getEmployeeCost largeRateDbWithC ''sales'' \<noteq> toNumber (rateTotal largeRateDbWithC ''sales'')"
  by code_simp

text \<open>
  C2: root removes member A from Sales (members A with rate 20 and B with rate 15). The
  membership is deleted, and the view returned on success still counts 2 employees with a
  total cost of 35: the rollups are read through the global client, outside the
  transaction, and do not reflect the deletion. Read after the commit they are 1 and 15.
\<close>

theorem remove_returns_stale_rollups:
  "removeEmployeeFromDepartment salesDb ''root'' ''sales'' ''A'' =
     (salesDb\<lparr>employeeDepartments := [memberB]\<rparr>,
      Inr \<lparr>department_id = ''sales'', department_name = ''Sales'', department_info = None,
           employeeCount = 2, totalCost = 35\<rparr>) \<and>
   getTotalEmployeeCount (salesDb\<lparr>employeeDepartments := [memberB]\<rparr>) ''sales'' = 1 \<and>
   getEmployeeCost (salesDb\<lparr>employeeDepartments := [memberB]\<rparr>) ''sales'' = 15"
  by code_simp

text \<open>
  C7: when the actor is not a user with the global role \<open>ADMIN\<close> (whatever the actor's
  roles in departments), \<open>createDepartment\<close> and \<open>deleteDepartment\<close> fail on the
  permission check and return the datastore as it was.
\<close>

theorem create_delete_department_admin_only:
  assumes "map_option user_role (user_findUnique db userId) \<noteq> Some UserRole_ADMIN"
  shows "createDepartment db newId userId name info = (db, Inl PermissionDenied) \<and>
         deleteDepartment db userId departmentId = (db, Inl PermissionDenied)"
  using assms by (auto simp: createDepartment_def deleteDepartment_def split: option.splits)

theorem create_delete_department_admin_only_witness:
  "map_option user_role (user_findUnique salesDb ''A'') \<noteq> Some UserRole_ADMIN \<and>
   map_option ed_role (employeeDepartment_findFirst salesDb ''A'' ''sales'') =
     Some EmployeeDepartmentRole_ADMIN \<and>
   createDepartment salesDb ''ops'' ''A'' ''Ops'' None = (salesDb, Inl PermissionDenied) \<and>
   deleteDepartment salesDb ''A'' ''sales'' = (salesDb, Inl PermissionDenied)"
proof -
  have h: "map_option user_role (user_findUnique salesDb ''A'') \<noteq> Some UserRole_ADMIN"
    by code_simp
  have r: "map_option ed_role (employeeDepartment_findFirst salesDb ''A'' ''sales'') =
     Some EmployeeDepartmentRole_ADMIN"
    by code_simp
  show ?thesis
    using h r create_delete_department_admin_only [OF h, of "''ops''" "''Ops''" None "''sales''"]
    by simp
qed

text \<open>
  C8: when an actor who may remove members names an employee without a membership in the
  department, \<open>removeEmployeeFromDepartment\<close> fails on the path that logs "Employee not
  found in department" and returns the datastore as it was.
\<close>

theorem remove_absent_member_not_found:
  assumes "mayRemoveMembers db userId departmentId"
    and "employeeDepartment_findFirst db employeeId departmentId = None"
  shows "removeEmployeeFromDepartment db userId departmentId employeeId = (db, Inl EmployeeNotFound)"
  using assms by (auto simp: removeEmployeeFromDepartment_def mayRemoveMembers_def)

theorem remove_absent_member_not_found_witness:
  "mayRemoveMembers salesDb ''B'' ''sales'' \<and>
   employeeDepartment_findFirst salesDb ''C'' ''sales'' = None \<and>
   removeEmployeeFromDepartment salesDb ''B'' ''sales'' ''C'' = (salesDb, Inl EmployeeNotFound)"
proof -
  have p: "mayRemoveMembers salesDb ''B'' ''sales''"
    by code_simp
  have n: "employeeDepartment_findFirst salesDb ''C'' ''sales'' = None"
    by code_simp
  show ?thesis
    using p n remove_absent_member_not_found [OF p n] by simp
qed

text \<open>
  C9: the view returned by a successful \<open>createDepartment\<close> has \<open>employeeCount\<close> 0 and
  \<open>totalCost\<close> 0.
\<close>

theorem created_department_has_zero_rollups:
  "createDepartment db newId userId name info = (db', Inr v) \<Longrightarrow>
     employeeCount v = 0 \<and> totalCost v = 0"
  by (auto simp: createDepartment_def asView_def split: option.splits if_splits)

theorem created_department_has_zero_rollups_witness:
  "createDepartment salesDb ''ops'' ''root'' ''Ops'' None =
     (salesDb\<lparr>departments := [sales,
        \<lparr>department_id = ''ops'', department_name = ''Ops'', department_info = None\<rparr>]\<rparr>,
      Inr (asView \<lparr>department_id = ''ops'', department_name = ''Ops'', department_info = None\<rparr> 0 0)) \<and>
   employeeCount (asView \<lparr>department_id = ''ops'', department_name = ''Ops'', department_info = None\<rparr> 0 0) = 0 \<and>
   totalCost (asView \<lparr>department_id = ''ops'', department_name = ''Ops'', department_info = None\<rparr> 0 0) = 0"
proof -
  have h: "createDepartment salesDb ''ops'' ''root'' ''Ops'' None =
     (salesDb\<lparr>departments := [sales,
        \<lparr>department_id = ''ops'', department_name = ''Ops'', department_info = None\<rparr>]\<rparr>,
      Inr (asView \<lparr>department_id = ''ops'', department_name = ''Ops'', department_info = None\<rparr> 0 0))"
    by code_simp
  show ?thesis
    using h created_department_has_zero_rollups [OF h] by simp
qed

section \<open>The client-side time entry state\<close>

text \<open>
  C10: when no entry is open, \<open>clockOut\<close> leaves \<open>currentEntry\<close> and \<open>recentEntries\<close> as
  they are, for every \<open>timeEntryId\<close> and every time.
\<close>

theorem clockOut_without_open_entry:
  "currentEntry st = None \<Longrightarrow>
     currentEntry (clockOut now timeEntryId st) = currentEntry st \<and>
     recentEntries (clockOut now timeEntryId st) = recentEntries st"
  by (simp add: clockOut_def)

theorem clockOut_without_open_entry_witness:
  "currentEntry clockedOutState = None \<and>
   currentEntry (clockOut 1704133800000 ''e1'' clockedOutState) = None \<and>
   recentEntries (clockOut 1704133800000 ''e1'' clockedOutState) = [closedEntry]"
proof -
  have h: "currentEntry clockedOutState = None"
    by (simp add: clockedOutState_def)
  show ?thesis
    using h clockOut_without_open_entry [OF h, of 1704133800000 "''e1''"]
    by (simp add: clockedOutState_def)
qed


section \<open>The hours computed by the client\<close>

text \<open>
  The rounding error of a number division: for a positive exact result \<open>x\<close> the number
  differs from \<open>x\<close> by at most \<open>x / 2^53\<close>.
\<close>

lemma bitlen_pos: "0 < n \<Longrightarrow> 1 \<le> bitlen n"
  using bitlen_eq_zero_iff [of n] bitlen_nonneg [of n] by linarith

lemma floorLog2_le:
  assumes "0 < x"
  shows "2 powi (floorLog2 x) \<le> x"
proof (cases "1 \<le> x")
  case True
  let ?n = "\<lfloor>x\<rfloor>"
  have n: "0 < ?n"
    using True by simp
  have b: "1 \<le> bitlen ?n"
    using n by (rule bitlen_pos)
  have "(2::int) ^ nat (bitlen ?n - 1) \<le> ?n"
    using bitlen_bounds [OF n] by simp
  then have "rat_of_int (2 ^ nat (bitlen ?n - 1)) \<le> rat_of_int ?n"
    by (simp only: of_int_le_iff)
  also have "\<dots> \<le> x"
    by simp
  finally have "(2::rat) ^ nat (bitlen ?n - 1) \<le> x"
    by simp
  then show ?thesis
    using True b by (simp add: floorLog2_def power_int_def)
next
  case False
  let ?m = "\<lceil>1 / x\<rceil>"
  let ?k = "bitlen (?m - 1)"
  have y: "1 < 1 / x"
    using False assms by simp
  then have m: "0 < ?m - 1"
    by (simp add: less_ceiling_iff)
  have k: "1 \<le> ?k"
    using m by (rule bitlen_pos)
  have "?m - 1 < 2 ^ nat ?k"
    using bitlen_bounds [OF m] by simp
  then have "?m \<le> 2 ^ nat ?k"
    by simp
  then have mk: "rat_of_int ?m \<le> rat_of_int (2 ^ nat ?k)"
    by (simp only: of_int_le_iff)
  have "1 / x \<le> rat_of_int ?m"
    by (rule le_of_int_ceiling)
  also note mk
  also have "rat_of_int (2 ^ nat ?k) = 2 ^ nat ?k"
    by simp
  finally have "1 / x \<le> 2 ^ nat ?k" .
  then have "1 \<le> 2 ^ nat ?k * x"
    using assms by (simp add: field_simps)
  then have "inverse 2 ^ nat ?k \<le> x"
    by (simp add: field_simps power_inverse [symmetric])
  then show ?thesis
    using False k by (simp add: floorLog2_def power_int_def)
qed

lemma roundHalfEven_error: "\<bar>rat_of_int (roundHalfEven y) - y\<bar> \<le> 1 / 2"
proof -
  have "0 \<le> y - rat_of_int \<lfloor>y\<rfloor>" "y - rat_of_int \<lfloor>y\<rfloor> < 1"
    by linarith+
  then show ?thesis
    by (auto simp: roundHalfEven_def Let_def)
qed

lemma roundToDouble_error:
  assumes "0 < x"
  shows "\<bar>roundToDouble x - x\<bar> \<le> x / 2 ^ 53"
proof -
  define e where "e = floorLog2 x"
  define u :: rat where "u = 2 powi (e - 52)"
  have u: "0 < u"
    by (simp add: u_def)
  have eq: "roundToDouble x = rat_of_int (roundHalfEven (x / u)) * u"
    using assms by (simp add: roundToDouble_def Let_def e_def u_def)
  have "rat_of_int (roundHalfEven (x / u)) * u - x =
        (rat_of_int (roundHalfEven (x / u)) - x / u) * u"
    using u by (simp add: left_diff_distrib)
  then have "\<bar>rat_of_int (roundHalfEven (x / u)) * u - x\<bar> =
        \<bar>rat_of_int (roundHalfEven (x / u)) - x / u\<bar> * \<bar>u\<bar>"
    by (simp only: abs_mult)
  also have "\<dots> = \<bar>rat_of_int (roundHalfEven (x / u)) - x / u\<bar> * u"
    using u by simp
  also have "\<dots> \<le> (1 / 2) * u"
    using roundHalfEven_error [of "x / u"] u by (intro mult_right_mono) simp_all
  also have "\<dots> = 2 powi e / 2 ^ 53"
    by (simp add: u_def power_int_diff)
  also have "\<dots> \<le> x / 2 ^ 53"
    using floorLog2_le [OF assms] by (simp add: e_def divide_right_mono)
  finally show ?thesis
    by (simp add: eq)
qed


lemma roundHalfEven_of_int: "roundHalfEven (rat_of_int m) = m"
  by (simp add: roundHalfEven_def)

lemma roundToDouble_of_int:
  assumes "0 \<le> n" and "n < 2 ^ 53"
  shows "roundToDouble (rat_of_int n) = rat_of_int n"
proof (cases "n = 0")
  case True
  then show ?thesis
    by (simp add: roundToDouble_def)
next
  case False
  then have n: "0 < n"
    using assms(1) by simp
  define k where "k = nat (bitlen n - 1)"
  have b: "1 \<le> bitlen n"
    using n by (rule bitlen_pos)
  have e: "floorLog2 (rat_of_int n) = int k"
    using n b by (simp add: floorLog2_def k_def)
  have "(2::int) ^ k \<le> n"
    using bitlen_bounds [OF n] by (simp add: k_def)
  then have "(2::int) ^ k < 2 ^ 53"
    using assms(2) by linarith
  then have "k < 53"
    by (simp only: power_strict_increasing_iff [of 2] rel_simps)
  then have k: "k \<le> 52"
    by simp
  have u: "(2::rat) powi (int k - 52) = inverse (2 ^ (52 - k))"
    using k by (simp add: power_int_def nat_diff_distrib' power_one_over inverse_eq_divide)
  have "rat_of_int n / inverse (2 ^ (52 - k)) = rat_of_int (n * 2 ^ (52 - k))"
    by (simp add: field_simps)
  then have r: "roundHalfEven (rat_of_int n / inverse (2 ^ (52 - k))) = n * 2 ^ (52 - k)"
    by (simp only: roundHalfEven_of_int)
  show ?thesis
    using n by (simp add: roundToDouble_def Let_def e u r)
qed

lemma hundredths_of_elapsed:
  "\<lfloor>rat_of_int ms / 3600000 * 100 + 1 / 2\<rfloor> = (ms + 18000) div 36000"
proof -
  have "rat_of_int ms / 3600000 * 100 + 1 / 2 = rat_of_int (ms + 18000) / rat_of_int 36000"
    by simp
  then show ?thesis
    by (simp only: floor_divide_of_int_eq)
qed

lemma toFixed2_jsDivide:
  assumes "0 \<le> ms" and "ms < 2 ^ 53" and "ms mod 36000 \<noteq> 18000"
  shows "toFixed2 (jsDivide (rat_of_int ms) (1000 * 60 * 60)) =
         rat_of_int ((ms + 18000) div 36000) / 100"
proof (cases "ms = 0")
  case True
  have "\<lfloor>1 / 2 :: rat\<rfloor> = 0"
    by (rule floor_unique) simp_all
  then show ?thesis
    using True by (simp add: toFixed2_def jsDivide_def roundToDouble_def)
next
  case False
  define n where "n = (ms + 18000) div 36000"
  define k where "k = (ms + 18000) mod 36000"
  define q where "q = rat_of_int ms / 3600000"
  define r where "r = roundToDouble q"
  have pos: "0 < ms"
    using False assms(1) by simp
  have sum: "ms + 18000 = 36000 * n + k"
    unfolding n_def k_def by simp
  have kb: "0 \<le> k" "k < 36000"
    unfolding k_def by simp_all
  have "k \<noteq> 0"
  proof
    assume k0: "k = 0"
    define d where "d = ms div 36000"
    define a where "a = ms mod 36000"
    have a: "0 \<le> a" "a < 36000" "a \<noteq> 18000"
      using assms(3) unfolding a_def by simp_all
    have "ms = 36000 * d + a"
      unfolding d_def a_def by simp
    with sum k0 have e: "a + 18000 = 36000 * (n - d)"
      by simp
    consider "n - d \<le> 0" | "n - d = 1" | "2 \<le> n - d"
      by linarith
    then show False
      using e a by cases simp_all
  qed
  with kb have k: "1 \<le> k" "k \<le> 35999"
    by simp_all
  note sum
  then have "rat_of_int (ms + 18000) = rat_of_int (36000 * n + k)"
    by (simp only:)
  then have split: "rat_of_int ms = 36000 * rat_of_int n + rat_of_int k - 18000"
    by simp
  have kr: "1 \<le> rat_of_int k" "rat_of_int k \<le> 35999"
    using k by simp_all
  have msr: "0 < rat_of_int ms" "rat_of_int ms < 9007199254740992"
    using pos assms(2) by simp_all
  have q: "0 < q"
    using msr by (simp add: q_def)
  have err: "\<bar>r - q\<bar> \<le> q / 2 ^ 53"
    unfolding r_def using q by (rule roundToDouble_error)
  have qd: "q * 3600000 = rat_of_int ms"
    by (simp add: q_def)
  have err': "\<bar>r - q\<bar> \<le> q / 9007199254740992"
    using err by simp
  have lo: "rat_of_int n \<le> r * 100 + 1 / 2"
    using err' split kr msr qd by linarith
  have hi: "r * 100 + 1 / 2 < rat_of_int n + 1"
    using err' split kr msr qd by linarith
  have r0: "\<not> r < 0"
    using err' q by linarith
  have "\<lfloor>r * 100 + 1 / 2\<rfloor> = n"
    using lo hi by (intro floor_unique) simp_all
  then show ?thesis
    using r0 by (simp add: toFixed2_def jsDivide_def r_def q_def n_def)
qed

lemma clientHours_decimalHours:
  assumes "0 \<le> clockOutTime - clockInTime" and "clockOutTime - clockInTime < 2 ^ 53"
    and "(clockOutTime - clockInTime) mod 36000 \<noteq> 18000"
  shows "clientHours clockOutTime clockInTime = decimalHours clockOutTime clockInTime"
proof -
  have "jsSubtract (rat_of_int clockOutTime) (rat_of_int clockInTime) =
        roundToDouble (rat_of_int (clockOutTime - clockInTime))"
    by (simp add: jsSubtract_def)
  then have exact: "jsSubtract (rat_of_int clockOutTime) (rat_of_int clockInTime) =
        rat_of_int (clockOutTime - clockInTime)"
    by (simp only: roundToDouble_of_int [OF assms(1,2)])
  show ?thesis
    unfolding clientHours_def decimalHours_def Let_def hundredths_of_elapsed exact
    by (rule toFixed2_jsDivide [OF assms])
qed

text \<open>
  C4, as amended: when an entry is open and the elapsed time is not negative, below
  \<open>2^53\<close> milliseconds and not an exact midpoint between two hundredths of an hour (a
  multiple of 36 seconds plus 18 seconds), \<open>clockOut\<close> closes the entry with the hours
  equal to the elapsed time in hours rounded to two decimal places. The hours are
  computed by a number division and \<open>toFixed(2)\<close>, not in decimal arithmetic.
\<close>

theorem clockOut_hours_rounded:
  assumes "currentEntry st = Some cur"
    and "0 \<le> now - entry_clockIn cur"
    and "now - entry_clockIn cur < 2 ^ 53"
    and "(now - entry_clockIn cur) mod 36000 \<noteq> 18000"
  shows "currentEntry (clockOut now timeEntryId st) = None \<and>
         recentEntries (clockOut now timeEntryId st) =
           map (\<lambda>entry. if entry_id entry = timeEntryId
                  then cur\<lparr>entry_clockOut := Some now,
                           entry_hours := Some (decimalHours now (entry_clockIn cur))\<rparr>
                  else entry)
             (recentEntries st)"
  using assms(1) clientHours_decimalHours [OF assms(2-4)]
  by (simp add: clockOut_def)

theorem clockOut_hours_rounded_witness:
  "currentEntry clockedInState = Some openEntry \<and>
   0 \<le> 1704216600000 - entry_clockIn openEntry \<and>
   1704216600000 - entry_clockIn openEntry < 2 ^ 53 \<and>
   (1704216600000 - entry_clockIn openEntry) mod 36000 \<noteq> 18000 \<and>
   currentEntry (clockOut 1704216600000 ''e2'' clockedInState) = None \<and>
   recentEntries (clockOut 1704216600000 ''e2'' clockedInState) =
     [openEntry\<lparr>entry_clockOut := Some 1704216600000, entry_hours := Some (17 / 2)\<rparr>, closedEntry]"
proof -
  have c: "currentEntry clockedInState = Some openEntry"
    by (simp add: clockedInState_def)
  have e: "1704216600000 - entry_clockIn openEntry = 30600000"
    by (simp add: openEntry_def)
  have h1: "0 \<le> 1704216600000 - entry_clockIn openEntry"
    and h2: "1704216600000 - entry_clockIn openEntry < 2 ^ 53"
    and h3: "(1704216600000 - entry_clockIn openEntry) mod 36000 \<noteq> 18000"
    unfolding e by simp_all
  have d: "decimalHours 1704216600000 (entry_clockIn openEntry) = 17 / 2"
    unfolding decimalHours_def e by code_simp
  have ids: "entry_id openEntry = ''e2''" "entry_id closedEntry \<noteq> ''e2''"
    by (simp_all add: openEntry_def closedEntry_def)
  have l: "recentEntries clockedInState = [openEntry, closedEntry]"
    by (simp add: clockedInState_def)
  show ?thesis
    using c h1 h2 h3 clockOut_hours_rounded [OF c h1 h2 h3, of "''e2''"]
    by (simp add: d ids l)
qed

text \<open>
  C4, as stated, fails 54 seconds after the clock-in: the elapsed time is exactly 0.015
  hours, which decimal rounding takes to 0.02 (a midpoint going up, or to the even
  hundredth), while the number nearest to 0.015 lies below it and \<open>toFixed(2)\<close> gives
  0.01.
\<close>

theorem clockOut_hours_not_decimal_rounding:
  "recentEntries (clockOut 1704186054000 ''e2'' clockedInState) =
     [openEntry\<lparr>entry_clockOut := Some 1704186054000, entry_hours := Some (1 / 100)\<rparr>, closedEntry] \<and>
   rat_of_int (1704186054000 - entry_clockIn openEntry) / 3600000 = 15 / 1000 \<and>
   decimalHours 1704186054000 (entry_clockIn openEntry) = 2 / 100 \<and>
   rat_of_int (roundHalfEven (15 / 1000 * 100)) / 100 = 2 / 100 \<and>
   clientHours 1704186054000 (entry_clockIn openEntry) \<noteq>
     decimalHours 1704186054000 (entry_clockIn openEntry)"
  by code_simp

end
